theory Spec2Isabelle
  imports Main "HOL-Library.Multiset" "HOL-Library.Word"
begin

section \<open>The model catalogue and its ordering (generate.js, lines 20-58)\<close>

text \<open>
  \<open>ALL_MODELS\<close> is the constant array of the source, in the order written there.
\<close>

definition ALL_MODELS :: "string list" where
  "ALL_MODELS =
     [''gemini-2.5-pro'',
      ''gemini-2.5-flash'',
      ''gemini-1.5-pro-latest'',
      ''gemini-1.5-flash-latest'',
      ''gemini-pro'']"

definition THRESHOLD :: int where
  "THRESHOLD = 4000"

text \<open>
  \<open>getDynamicModelList\<close> reads the catalogue by index, as the source does; every index is
  within the five entries. The two \<open>console.log\<close> calls do not influence the result and
  are left out.
\<close>

definition getDynamicModelList :: "int \<Rightarrow> string list" where
  "getDynamicModelList totalChars =
     (if totalChars > THRESHOLD
      then [ALL_MODELS ! 0, ALL_MODELS ! 2, ALL_MODELS ! 1, ALL_MODELS ! 3, ALL_MODELS ! 4]
      else [ALL_MODELS ! 1, ALL_MODELS ! 3, ALL_MODELS ! 0, ALL_MODELS ! 2, ALL_MODELS ! 4])"


section \<open>JSON values as the code reads them\<close>

text \<open>
  Upstream payloads are parsed JSON. \<open>JObj\<close> lists the members of an object (the first
  entry for a key is the one read), \<open>JUndefined\<close> is what reading an absent member
  gives. \<open>JStr\<close> holds the UTF-8 bytes of a string: the code only tests such strings
  for emptiness and compares them with ASCII constants. \<open>JNum\<close> holds integer-valued
  numbers; the code only tests numbers for being zero.
\<close>

datatype jsval =
    JUndefined
  | JNull
  | JBool bool
  | JNum int
  | JStr string
  | JArr "jsval list"
  | JObj "(string \<times> jsval) list"

fun truthy :: "jsval \<Rightarrow> bool" where
  "truthy JUndefined = False"
| "truthy JNull = False"
| "truthy (JBool b) = b"
| "truthy (JNum n) = (n \<noteq> 0)"
| "truthy (JStr s) = (s \<noteq> [])"
| "truthy (JArr xs) = True"
| "truthy (JObj kvs) = True"

fun nullish :: "jsval \<Rightarrow> bool" where
  "nullish JUndefined = True"
| "nullish JNull = True"
| "nullish v = False"

text \<open>
  \<open>js_get v k\<close> is \<open>v.k\<close> on a value that is neither \<open>null\<close> nor \<open>undefined\<close>. The
  code reads the members \<open>candidates\<close>, \<open>content\<close>, \<open>parts\<close>, \<open>finishReason\<close>,
  \<open>text\<close>, \<open>error\<close> and \<open>message\<close>; none of them is a built-in property of an array,
  a string, a number or a boolean, so only an object can have them.
  \<open>js_opt_get v k\<close> is \<open>v?.k\<close>, and \<open>js_opt_first v\<close> is \<open>v?.[0]\<close>; on a non-empty
  string the latter is a one-character string, of which the code only reads members that
  it does not have.
\<close>

fun js_get :: "jsval \<Rightarrow> string \<Rightarrow> jsval" where
  "js_get (JObj kvs) k = (case map_of kvs k of None \<Rightarrow> JUndefined | Some v \<Rightarrow> v)"
| "js_get v k = JUndefined"

definition js_opt_get :: "jsval \<Rightarrow> string \<Rightarrow> jsval" where
  "js_opt_get v k = (if nullish v then JUndefined else js_get v k)"

fun js_opt_first :: "jsval \<Rightarrow> jsval" where
  "js_opt_first (JArr []) = JUndefined"
| "js_opt_first (JArr (x # xs)) = x"
| "js_opt_first (JObj kvs) = js_get (JObj kvs) ''0''"
| "js_opt_first (JStr []) = JUndefined"
| "js_opt_first (JStr (c # cs)) = JStr [c]"
| "js_opt_first v = JUndefined"

text \<open>
  A template literal converts the value it interpolates to a string, and that conversion
  can throw. An object parsed from JSON has no callable member, so when it has a member
  \<open>toString\<close> of its own neither \<open>toString\<close> nor \<open>valueOf\<close> gives a primitive and the
  conversion throws a \<open>TypeError\<close>; without such a member it is \<open>[object Object]\<close>. An
  array is joined from the conversions of its elements. \<open>template_throws v\<close> says that
  interpolating \<open>v\<close> throws.
\<close>

fun template_throws :: "jsval \<Rightarrow> bool" where
  "template_throws (JObj kvs) = (map_of kvs ''toString'' \<noteq> None)"
| "template_throws (JArr xs) = list_ex template_throws xs"
| "template_throws v = False"

section \<open>Errors, upstream results and effects\<close>

text \<open>
  The values the code throws and catches. An error rejected by \<open>axios.post\<close> carries an
  optional \<open>code\<close> (\<open>ECONNABORTED\<close> when the 45 second budget is exceeded) and an optional
  \<open>response\<close> with the upstream status and body. \<open>TypeError\<close> is what the runtime throws
  on a member read of \<open>undefined\<close> or \<open>null\<close> and on a call of something that is not a
  function. The two errors the code creates itself are kept by their content:
  \<open>EmptyOrBlocked model reason\<close> for line 97 (the model and the value interpolated as
  the reason), \<open>NoModelAnswered\<close> for line 118. The \<open>message\<close> texts of errors reach
  the console only and are not modelled; they are strings.
\<close>

record http_response =
  resp_status :: int
  resp_data :: jsval

datatype js_error =
    AxiosError "string option" "http_response option"
  | TypeError
  | EmptyOrBlocked string jsval
  | NoModelAnswered

fun code_of :: "js_error \<Rightarrow> string option" where
  "code_of (AxiosError c r) = c"
| "code_of e = None"

fun response_of :: "js_error \<Rightarrow> http_response option" where
  "response_of (AxiosError c r) = r"
| "response_of e = None"

text \<open>\<open>error.response?.status || 500\<close>, on lines 103 and 148.\<close>

definition statusOf :: "js_error \<Rightarrow> int" where
  "statusOf error =
     (case response_of error of
        None \<Rightarrow> 500
      | Some r \<Rightarrow> if resp_status r = 0 then 500 else resp_status r)"

text \<open>\<open>error.response?.data?.error?.message\<close>, on lines 104 and 149.\<close>

definition upstream_message :: "js_error \<Rightarrow> jsval" where
  "upstream_message error =
     (case response_of error of
        None \<Rightarrow> JUndefined
      | Some r \<Rightarrow> js_opt_get (js_opt_get (resp_data r) ''error'') ''message'')"

text \<open>
  A conversation as the request carries it: a message has a \<open>parts\<close> member (absent:
  \<open>None\<close>), a part has a \<open>text\<close> member (absent: \<open>None\<close>). A text is a JavaScript
  string, a sequence of 16-bit code units, and \<open>.length\<close> is their number. Messages
  and parts that are not objects, and texts that are not strings, are outside this type.
\<close>

type_synonym jsstring = "16 word list"

record part =
  part_text :: "jsstring option"

record message =
  msg_parts :: "part list option"

text \<open>
  One \<open>axios.post\<close>. The upstream service is a parameter: it is given the number of
  calls made before this one during the request, the model of the URL and the
  conversation sent as \<open>contents\<close> (the key in the URL, the generation configuration,
  the safety settings, the headers and the timeout do not change during a request), and
  it either resolves with the response body or rejects with an error.
\<close>

datatype http_result = Resolved jsval | Rejected js_error

type_synonym upstream = "nat \<Rightarrow> string \<Rightarrow> message list \<Rightarrow> http_result"

text \<open>The effects that are observed: each upstream call and each \<open>delay(ms)\<close>.\<close>

datatype event = Post string | Delay nat

section \<open>The fallback executor (generate.js, lines 62-119)\<close>

text \<open>Lines 88-90: the three constants computed from a response body.\<close>

definition candidate :: "jsval \<Rightarrow> jsval" where
  "candidate data = js_opt_first (js_opt_get data ''candidates'')"

text \<open>
  \<open>parts.some(p => p.text)\<close> stops at the first part with a truthy text, and reading
  \<open>text\<close> of a part that is \<open>null\<close> throws.
\<close>

fun some_text :: "jsval list \<Rightarrow> js_error + bool" where
  "some_text [] = Inr False"
| "some_text (p # ps) =
     (if nullish p then Inl TypeError
      else if truthy (js_get p ''text'') then Inr True
      else some_text ps)"

text \<open>
  \<open>candidate?.content?.parts?.some(...)\<close>: \<open>undefined\<close> (here \<open>False\<close>, the value is
  only used as a condition) when a link of the chain is missing, a \<open>TypeError\<close> when
  \<open>parts\<close> is present and not an array.
\<close>

definition hasTextResult :: "jsval \<Rightarrow> js_error + bool" where
  "hasTextResult c =
     (case js_opt_get (js_opt_get c ''content'') ''parts'' of
        JUndefined \<Rightarrow> Inr False
      | JNull \<Rightarrow> Inr False
      | JArr ps \<Rightarrow> some_text ps
      | _ \<Rightarrow> Inl TypeError)"

definition finishReason :: "jsval \<Rightarrow> jsval" where
  "finishReason c = js_opt_get c ''finishReason''"

text \<open>
  One iteration of the loop ends in one of three ways: the function returns, the
  function throws, or the loop continues with a recorded error after the effects given.
\<close>

datatype step = Return jsval | Throw js_error | Continue js_error "event list"

text \<open>
  Lines 101-114. The text logged on line 106 is the upstream message when that is truthy
  and the error's own message otherwise; building the log line converts it to a string,
  before the status is tested, and an error thrown inside the \<open>catch\<close> leaves the
  function.
\<close>

definition catch_block :: "js_error \<Rightarrow> step" where
  "catch_block error =
     (if truthy (upstream_message error) \<and> template_throws (upstream_message error)
      then Throw TypeError
      else if statusOf error = 400 then Throw error
      else Continue error [Delay 500])"

text \<open>
  Lines 88-99, with the errors thrown there caught by the same \<open>catch\<close>. Line 97
  builds the message of the recorded error from \<open>finishReason || 'Desconocida'\<close>, and
  that conversion is inside the \<open>try\<close>. The logs of lines 93 and 98 interpolate strings.
\<close>

definition try_block :: "string \<Rightarrow> jsval \<Rightarrow> step" where
  "try_block model data =
     (case hasTextResult (candidate data) of
        Inl error \<Rightarrow> catch_block error
      | Inr has_text \<Rightarrow>
          if has_text \<and> (finishReason (candidate data) = JStr ''STOP''
                         \<or> finishReason (candidate data) = JStr ''MAX_TOKENS'')
          then Return data
          else
            (let reason = (if truthy (finishReason (candidate data))
                           then finishReason (candidate data) else JStr ''Desconocida'')
             in if template_throws reason then catch_block TypeError
                else Continue (EmptyOrBlocked model reason) []))"

definition attempt :: "upstream \<Rightarrow> message list \<Rightarrow> nat \<Rightarrow> string \<Rightarrow> step" where
  "attempt up messages i model =
     (case up i model messages of
        Resolved data \<Rightarrow> try_block model data
      | Rejected error \<Rightarrow> catch_block error)"

text \<open>
  The \<open>for\<close> loop, with \<open>lastError\<close> and the number of calls made so far; the result
  is what the function returns (\<open>Inr\<close>) or throws (\<open>Inl\<close>), with the effects in order.
\<close>

fun fetchFromModels_loop ::
  "upstream \<Rightarrow> message list \<Rightarrow> js_error option \<Rightarrow> nat \<Rightarrow> string list
     \<Rightarrow> (js_error + jsval) \<times> event list" where
  "fetchFromModels_loop up messages lastError i [] =
     (Inl (case lastError of Some error \<Rightarrow> error | None \<Rightarrow> NoModelAnswered), [])"
| "fetchFromModels_loop up messages lastError i (model # rest) =
     (case attempt up messages i model of
        Return data \<Rightarrow> (Inr data, [Post model])
      | Throw error \<Rightarrow> (Inl error, [Post model])
      | Continue error evs \<Rightarrow>
          (case fetchFromModels_loop up messages (Some error) (Suc i) rest of
             (result, trace) \<Rightarrow> (result, Post model # evs @ trace)))"

definition fetchFromModels ::
  "upstream \<Rightarrow> message list \<Rightarrow> string list \<Rightarrow> (js_error + jsval) \<times> event list" where
  "fetchFromModels up messages modelList = fetchFromModels_loop up messages None 0 modelList"

section \<open>The request handler (generate.js, lines 122-157)\<close>

text \<open>
  What the destructuring \<open>const { messages } = req.body\<close> can give: any JSON value,
  where an array is an array of messages. \<open>FUndefined\<close> stands for an absent member.
\<close>

datatype messages_field =
    FUndefined
  | FNull
  | FBool bool
  | FNum int
  | FStr string
  | FObj "(string \<times> jsval) list"
  | FArr "message list"

fun truthy_field :: "messages_field \<Rightarrow> bool" where
  "truthy_field FUndefined = False"
| "truthy_field FNull = False"
| "truthy_field (FBool b) = b"
| "truthy_field (FNum n) = (n \<noteq> 0)"
| "truthy_field (FStr s) = (s \<noteq> [])"
| "truthy_field (FObj kvs) = True"
| "truthy_field (FArr ms) = True"

fun isArray :: "messages_field \<Rightarrow> bool" where
  "isArray (FArr ms) = True"
| "isArray f = False"

text \<open>The elements of \<open>messages\<close>, read only once \<open>isArray\<close> has held.\<close>

fun elements :: "messages_field \<Rightarrow> message list" where
  "elements (FArr ms) = ms"
| "elements f = []"

text \<open>
  A request: its method and its body, \<open>None\<close> when \<open>req.body\<close> is \<open>undefined\<close> or
  \<open>null\<close> (the destructuring then throws, outside the \<open>try\<close>). The response headers
  are not modelled.
\<close>

record request =
  req_method :: string
  req_body :: "messages_field option"

record reply =
  status_code :: int
  json :: jsval

datatype outcome = Responded reply | Unhandled js_error

text \<open>The texts of the responses, as UTF-8 bytes.\<close>

definition MSG_METHOD :: string where
  "MSG_METHOD = ''M'' @ [CHR 0xC3, CHR 0xA9] @ ''todo no permitido''"

definition MSG_MESSAGES :: string where
  "MSG_MESSAGES = ''El campo '' @ [CHR 0x22] @ ''messages'' @ [CHR 0x22]
     @ '' es requerido y debe ser un array no vac'' @ [CHR 0xC3, CHR 0xAD] @ ''o.''"

definition MSG_CONFIG :: string where
  "MSG_CONFIG = ''Error de configuraci'' @ [CHR 0xC3, CHR 0xB3] @ ''n del servidor.''"

definition MSG_GENERIC :: string where
  "MSG_GENERIC = ''No se pudo obtener una respuesta de los modelos. Intenta nuevamente.''"

definition MSG_QUOTA :: string where
  "MSG_QUOTA = ''Se ha excedido la cuota de solicitudes. Espera un momento.''"

definition MSG_INVALID :: string where
  "MSG_INVALID = ''Solicitud inv'' @ [CHR 0xC3, CHR 0xA1]
     @ ''lida. Revisa el contenido, puede contener informaci'' @ [CHR 0xC3, CHR 0xB3]
     @ ''n sensible.''"

definition MSG_TIMEOUT :: string where
  "MSG_TIMEOUT = ''La solicitud tard'' @ [CHR 0xC3, CHR 0xB3]
     @ '' demasiado en responder (Timeout).''"

definition error_json :: "jsval \<Rightarrow> jsval" where
  "error_json m = JObj [(''error'', m)]"

text \<open>
  Line 140, \<open>totalChars\<close>, the \<open>reduce\<close> from 0: each message adds the length of the text of its
  first part, or 0 when that text is absent or empty. Reading \<open>[0]\<close> of an absent
  \<open>parts\<close>, or \<open>text\<close> of the absent first element of an empty \<open>parts\<close>, throws.
\<close>

fun reduce_chars :: "int \<Rightarrow> message list \<Rightarrow> js_error + int" where
  "reduce_chars acc [] = Inr acc"
| "reduce_chars acc (msg # rest) =
     (case msg_parts msg of
        None \<Rightarrow> Inl TypeError
      | Some [] \<Rightarrow> Inl TypeError
      | Some (p # ps) \<Rightarrow>
          reduce_chars
            (acc + (case part_text p of
                      None \<Rightarrow> 0
                    | Some t \<Rightarrow> if t \<noteq> [] then int (length t) else 0))
            rest)"

definition totalChars_of :: "message list \<Rightarrow> js_error + int" where
  "totalChars_of messages = reduce_chars 0 messages"

text \<open>Lines 146-155, the \<open>catch\<close> of the handler.\<close>

definition errorMessage :: "js_error \<Rightarrow> jsval" where
  "errorMessage error =
     (let statusCode = statusOf error;
          errorMessage = (if truthy (upstream_message error) then upstream_message error
                          else JStr MSG_GENERIC)
      in if statusCode = 429 then JStr MSG_QUOTA
         else if statusCode = 400 then JStr MSG_INVALID
         else if code_of error = Some ''ECONNABORTED'' then JStr MSG_TIMEOUT
         else errorMessage)"

definition error_reply :: "js_error \<Rightarrow> reply" where
  "error_reply error =
     \<lparr>status_code = statusOf error, json = error_json (errorMessage error)\<rparr>"

text \<open>
  The handler, given the upstream service and the value of the environment variable
  \<open>GOOGLE_API_KEY\<close> (\<open>None\<close> when it is not set). It yields what the handler answers
  and the effects in order.
\<close>

definition handler :: "upstream \<Rightarrow> string option \<Rightarrow> request \<Rightarrow> outcome \<times> event list" where
  "handler up apiKey req =
     (if req_method req \<noteq> ''POST''
      then (Responded \<lparr>status_code = 405, json = error_json (JStr MSG_METHOD)\<rparr>, [])
      else
        (case req_body req of
           None \<Rightarrow> (Unhandled TypeError, [])
         | Some messages \<Rightarrow>
             if \<not> truthy_field messages \<or> \<not> isArray messages \<or> elements messages = []
             then (Responded \<lparr>status_code = 400, json = error_json (JStr MSG_MESSAGES)\<rparr>, [])
             else if apiKey = None \<or> apiKey = Some []
             then (Responded \<lparr>status_code = 500, json = error_json (JStr MSG_CONFIG)\<rparr>, [])
             else
               (case totalChars_of (elements messages) of
                  Inl error \<Rightarrow> (Responded (error_reply error), [])
                | Inr totalChars \<Rightarrow>
                    (case fetchFromModels up (elements messages)
                            (getDynamicModelList totalChars) of
                       (Inr responseData, trace) \<Rightarrow>
                         (Responded \<lparr>status_code = 200, json = responseData\<rparr>, trace)
                     | (Inl error, trace) \<Rightarrow> (Responded (error_reply error), trace)))))"

section \<open>The size metric in the words of the specification\<close>

text \<open>
  The specification's metric, for comparison with \<open>totalChars_of\<close>: the sum of the
  lengths of all text segments of all messages.
\<close>

definition spec_conversation_size :: "message list \<Rightarrow> int" where
  "spec_conversation_size messages =
     (\<Sum>msg\<leftarrow>messages.
        \<Sum>p\<leftarrow>(case msg_parts msg of None \<Rightarrow> [] | Some ps \<Rightarrow> ps).
          (case part_text p of None \<Rightarrow> 0 | Some t \<Rightarrow> int (length t)))"

section \<open>Concrete values used in the examples\<close>

text \<open>A one-message conversation with the text \<open>hi\<close>.\<close>

definition hi_conversation :: "message list" where
  "hi_conversation = [\<lparr>msg_parts = Some [\<lparr>part_text = Some [0x68, 0x69]\<rparr>]\<rparr>]"

text \<open>
  Candidates: one with a text that finished with \<open>STOP\<close>, one without parts, one with
  a text stopped by the safety filter, one stopped by the safety filter without content.
\<close>

definition ok_candidate :: jsval where
  "ok_candidate =
     JObj [(''content'', JObj [(''parts'', JArr [JObj [(''text'', JStr ''ok'')]])]),
           (''finishReason'', JStr ''STOP'')]"

definition empty_candidate :: jsval where
  "empty_candidate =
     JObj [(''content'', JObj [(''parts'', JArr [])]), (''finishReason'', JStr ''STOP'')]"

definition blocked_candidate :: jsval where
  "blocked_candidate =
     JObj [(''content'', JObj [(''parts'', JArr [JObj [(''text'', JStr ''no'')]])]),
           (''finishReason'', JStr ''SAFETY'')]"

definition refused_candidate :: jsval where
  "refused_candidate = JObj [(''finishReason'', JStr ''SAFETY'')]"

text \<open>
  Responses with one of these candidates, and one with the text in the second
  candidate only.
\<close>

definition ok_response :: jsval where
  "ok_response = JObj [(''candidates'', JArr [ok_candidate])]"

definition empty_response :: jsval where
  "empty_response = JObj [(''candidates'', JArr [empty_candidate])]"

definition blocked_response :: jsval where
  "blocked_response = JObj [(''candidates'', JArr [blocked_candidate])]"

definition second_candidate_response :: jsval where
  "second_candidate_response = JObj [(''candidates'', JArr [refused_candidate, ok_candidate])]"

text \<open>
  A JSON value that cannot be converted to a string, a candidate with it as finish
  reason, a candidate whose only part is \<open>null\<close>, and responses with them.
\<close>

definition unprintable :: jsval where
  "unprintable = JObj [(''toString'', JNum 1)]"

definition unprintable_reason_candidate :: jsval where
  "unprintable_reason_candidate = JObj [(''finishReason'', unprintable)]"

definition null_part_candidate :: jsval where
  "null_part_candidate =
     JObj [(''content'', JObj [(''parts'', JArr [JNull])]), (''finishReason'', JStr ''STOP'')]"

definition unprintable_reason_response :: jsval where
  "unprintable_reason_response = JObj [(''candidates'', JArr [unprintable_reason_candidate])]"

definition null_part_response :: jsval where
  "null_part_response = JObj [(''candidates'', JArr [null_part_candidate, ok_candidate])]"

definition no_candidates_response :: jsval where
  "no_candidates_response = JObj [(''candidates'', JArr [])]"

text \<open>
  Upstream errors: a 400, a 429, a 503 with a message of its own, a timeout, and a 400
  and a 503 whose message cannot be converted to a string.
\<close>

definition unprintable_bad_request_error :: js_error where
  "unprintable_bad_request_error =
     AxiosError (Some ''ERR_BAD_REQUEST'')
       (Some \<lparr>resp_status = 400,
              resp_data = JObj [(''error'', JObj [(''message'', unprintable)])]\<rparr>)"

definition unprintable_overloaded_error :: js_error where
  "unprintable_overloaded_error =
     AxiosError (Some ''ERR_BAD_RESPONSE'')
       (Some \<lparr>resp_status = 503,
              resp_data = JObj [(''error'', JObj [(''message'', unprintable)])]\<rparr>)"

definition bad_request_error :: js_error where
  "bad_request_error = AxiosError (Some ''ERR_BAD_REQUEST'') (Some \<lparr>resp_status = 400, resp_data = JNull\<rparr>)"

definition quota_error :: js_error where
  "quota_error = AxiosError (Some ''ERR_BAD_REQUEST'') (Some \<lparr>resp_status = 429, resp_data = JNull\<rparr>)"

definition overloaded_error :: js_error where
  "overloaded_error =
     AxiosError (Some ''ERR_BAD_RESPONSE'')
       (Some \<lparr>resp_status = 503,
              resp_data = JObj [(''error'', JObj [(''message'', JStr ''The model is overloaded.'')])]\<rparr>)"

definition timeout_error :: js_error where
  "timeout_error = AxiosError (Some ''ECONNABORTED'') None"

section \<open>Theorems about the ordering\<close>

lemma getDynamicModelList_long:
  "4000 < totalChars \<Longrightarrow> getDynamicModelList totalChars =
     [''gemini-2.5-pro'', ''gemini-1.5-pro-latest'', ''gemini-2.5-flash'',
      ''gemini-1.5-flash-latest'', ''gemini-pro'']"
  by (simp add: getDynamicModelList_def ALL_MODELS_def THRESHOLD_def)

lemma getDynamicModelList_short:
  "totalChars \<le> 4000 \<Longrightarrow> getDynamicModelList totalChars =
     [''gemini-2.5-flash'', ''gemini-1.5-flash-latest'', ''gemini-2.5-pro'',
      ''gemini-1.5-pro-latest'', ''gemini-pro'']"
  by (simp add: getDynamicModelList_def ALL_MODELS_def THRESHOLD_def)

text \<open>
  C2. Whatever the size, the ordering is a permutation of the five-entry catalogue: the
  same multiset of identifiers, hence the same set and the same length, without
  duplicates; and its last element is \<open>gemini-pro\<close>, the oldest fallback.
\<close>

theorem ordering_is_permutation_of_catalogue:
  "mset (getDynamicModelList totalChars) = mset ALL_MODELS
   \<and> set (getDynamicModelList totalChars) = set ALL_MODELS
   \<and> length (getDynamicModelList totalChars) = 5
   \<and> length ALL_MODELS = 5
   \<and> distinct (getDynamicModelList totalChars)
   \<and> last (getDynamicModelList totalChars) = ''gemini-pro''"
proof (cases "4000 < totalChars")
  case True
  have "getDynamicModelList totalChars =
     [''gemini-2.5-pro'', ''gemini-1.5-pro-latest'', ''gemini-2.5-flash'',
      ''gemini-1.5-flash-latest'', ''gemini-pro'']"
    using True by (rule getDynamicModelList_long)
  then show ?thesis
    by (simp add: ALL_MODELS_def insert_commute)
next
  case False
  then have "totalChars \<le> 4000" by simp
  then have "getDynamicModelList totalChars =
     [''gemini-2.5-flash'', ''gemini-1.5-flash-latest'', ''gemini-2.5-pro'',
      ''gemini-1.5-pro-latest'', ''gemini-pro'']"
    by (rule getDynamicModelList_short)
  then show ?thesis
    by (simp add: ALL_MODELS_def insert_commute)
qed

text \<open>
  C3. Up to and including 4000 characters the first model tried is
  \<open>gemini-2.5-flash\<close>; above 4000 it is \<open>gemini-2.5-pro\<close>.
\<close>

theorem first_model_by_regime:
  "(totalChars \<le> 4000 \<longrightarrow> hd (getDynamicModelList totalChars) = ''gemini-2.5-flash'')
   \<and> (4000 < totalChars \<longrightarrow> hd (getDynamicModelList totalChars) = ''gemini-2.5-pro'')"
  by (simp add: getDynamicModelList_long getDynamicModelList_short)

theorem first_model_by_regime_witness:
  "(4000::int) \<le> 4000 \<and> hd (getDynamicModelList 4000) = ''gemini-2.5-flash''
   \<and> (4000::int) < 4001 \<and> hd (getDynamicModelList 4001) = ''gemini-2.5-pro''"
  using first_model_by_regime [of 4000] first_model_by_regime [of 4001] by simp

section \<open>Theorems about the executor\<close>

lemma ok_response_accepted:
  "hasTextResult (candidate ok_response) = Inr True
   \<and> finishReason (candidate ok_response) = JStr ''STOP''"
  by (simp add: ok_response_def ok_candidate_def candidate_def hasTextResult_def
      finishReason_def js_opt_get_def)

lemma empty_response_soft:
  "hasTextResult (candidate empty_response) = Inr False
   \<and> finishReason (candidate empty_response) = JStr ''STOP''"
  by (simp add: empty_response_def empty_candidate_def candidate_def hasTextResult_def
      finishReason_def js_opt_get_def)

lemma blocked_response_soft:
  "hasTextResult (candidate blocked_response) = Inr True
   \<and> finishReason (candidate blocked_response) = JStr ''SAFETY''"
  by (simp add: blocked_response_def blocked_candidate_def candidate_def hasTextResult_def
      finishReason_def js_opt_get_def)

lemma no_candidates_response_soft:
  "hasTextResult (candidate no_candidates_response) = Inr False
   \<and> finishReason (candidate no_candidates_response) = JUndefined"
  by (simp add: no_candidates_response_def candidate_def hasTextResult_def
      finishReason_def js_opt_get_def)

lemma unprintable_throws:
  "truthy unprintable \<and> template_throws unprintable"
  by (simp add: unprintable_def)

text \<open>
  C1. When the first model's call resolves with a response whose first candidate has a
  text segment (\<open>hasTextResult\<close>) and whose finish reason is \<open>STOP\<close> or \<open>MAX_TOKENS\<close>,
  \<open>fetchFromModels\<close> returns that response body as it is after this single call,
  whatever conversation is sent and whatever models follow in the list.
\<close>

theorem first_accepted_response_is_returned:
  assumes "up 0 model messages = Resolved data"
    and "hasTextResult (candidate data) = Inr True"
    and "finishReason (candidate data) = JStr ''STOP''
         \<or> finishReason (candidate data) = JStr ''MAX_TOKENS''"
  shows "fetchFromModels up messages (model # rest) = (Inr data, [Post model])"
  using assms by (auto simp add: fetchFromModels_def attempt_def try_block_def)

theorem first_accepted_response_is_returned_witness:
  "hasTextResult (candidate ok_response) = Inr True
   \<and> finishReason (candidate ok_response) = JStr ''STOP''
   \<and> fetchFromModels (\<lambda>i model messages. Resolved ok_response) hi_conversation
        [''gemini-2.5-flash'', ''gemini-pro'']
       = (Inr ok_response, [Post ''gemini-2.5-flash''])"
proof -
  have a: "(\<lambda>i model messages. Resolved ok_response) 0 ''gemini-2.5-flash'' hi_conversation
             = Resolved ok_response"
    by simp
  have b: "hasTextResult (candidate ok_response) = Inr True"
    using ok_response_accepted by simp
  have c: "finishReason (candidate ok_response) = JStr ''STOP''
           \<or> finishReason (candidate ok_response) = JStr ''MAX_TOKENS''"
    using ok_response_accepted by simp
  show ?thesis
    using first_accepted_response_is_returned [OF a b c, where rest = "[''gemini-pro'']"]
      ok_response_accepted by simp
qed

text \<open>
  C4, as the claim states it, fails: when the 400 error carries an upstream message that
  cannot be converted to a string, building the log line of line 106 throws before the
  status is tested, and \<open>fetchFromModels\<close> fails with that \<open>TypeError\<close>, not with the
  upstream error.
\<close>

theorem status_400_with_unprintable_message:
  "statusOf unprintable_bad_request_error = 400
   \<and> fetchFromModels (\<lambda>i model messages. Rejected unprintable_bad_request_error)
        hi_conversation [''gemini-2.5-flash'', ''gemini-pro'']
       = (Inl TypeError, [Post ''gemini-2.5-flash''])
   \<and> TypeError \<noteq> unprintable_bad_request_error"
  by (simp add: fetchFromModels_def attempt_def catch_block_def statusOf_def
      upstream_message_def unprintable_bad_request_error_def unprintable_def js_opt_get_def)

text \<open>
  C4, amended. When the first model's call is rejected with an error whose response
  status is 400 and whose upstream message, if it has one, can be converted to a string,
  \<open>fetchFromModels\<close> throws that error after this single call; the second and later
  models of the list are not called.
\<close>

theorem status_400_aborts_the_sequence:
  assumes "up 0 model messages = Rejected error"
    and "response_of error = Some r"
    and "resp_status r = 400"
    and "\<not> template_throws (upstream_message error)"
  shows "fetchFromModels up messages (model # second # rest) = (Inl error, [Post model])"
  using assms by (simp add: fetchFromModels_def attempt_def catch_block_def statusOf_def)

theorem status_400_aborts_the_sequence_witness:
  "response_of bad_request_error = Some \<lparr>resp_status = 400, resp_data = JNull\<rparr>
   \<and> upstream_message bad_request_error = JUndefined
   \<and> fetchFromModels (\<lambda>i model messages. Rejected bad_request_error) hi_conversation
        [''gemini-2.5-flash'', ''gemini-1.5-flash-latest'', ''gemini-pro'']
       = (Inl bad_request_error, [Post ''gemini-2.5-flash''])"
proof -
  have a: "(\<lambda>i model messages. Rejected bad_request_error) 0 ''gemini-2.5-flash''
             hi_conversation = Rejected bad_request_error"
    by simp
  have b: "response_of bad_request_error = Some \<lparr>resp_status = 400, resp_data = JNull\<rparr>"
    by (simp add: bad_request_error_def)
  have c: "resp_status \<lparr>resp_status = 400, resp_data = JNull\<rparr> = 400"
    by simp
  have u: "upstream_message bad_request_error = JUndefined"
    by (simp add: upstream_message_def bad_request_error_def js_opt_get_def)
  have d: "\<not> template_throws (upstream_message bad_request_error)"
    using u by simp
  show ?thesis
    using status_400_aborts_the_sequence
        [OF a b c d, where second = "''gemini-1.5-flash-latest''" and rest = "[''gemini-pro'']"]
      b u
    by simp
qed

text \<open>
  The loop from any call number: when every call resolves with a response that is not
  accepted, on which the check of line 89 does not throw and whose finish reason can be
  converted to a string, the models are called once each in order, without delay, and
  the error thrown is the one recorded for the last model.
\<close>

lemma loop_all_soft:
  assumes "modelList \<noteq> []"
    and "\<forall>k<length modelList. up (i + k) (modelList ! k) messages = Resolved (d (i + k))"
    and "\<forall>k<length modelList.
           hasTextResult (candidate (d (i + k))) = Inr False
           \<or> (hasTextResult (candidate (d (i + k))) = Inr True
               \<and> finishReason (candidate (d (i + k))) \<noteq> JStr ''STOP''
               \<and> finishReason (candidate (d (i + k))) \<noteq> JStr ''MAX_TOKENS'')"
    and "\<forall>k<length modelList. \<not> template_throws (finishReason (candidate (d (i + k))))"
  shows "fetchFromModels_loop up messages lastError i modelList =
           (Inl (EmptyOrBlocked (last modelList)
                   (if truthy (finishReason (candidate (d (i + length modelList - 1))))
                    then finishReason (candidate (d (i + length modelList - 1)))
                    else JStr ''Desconocida'')),
            map Post modelList)"
  using assms
proof (induction modelList arbitrary: i lastError)
  case Nil
  then show ?case by simp
next
  case (Cons model rest)
  let ?reason = "\<lambda>k. if truthy (finishReason (candidate (d k)))
                      then finishReason (candidate (d k)) else JStr ''Desconocida''"
  have here: "up i model messages = Resolved (d i)"
    using Cons.prems(2) by fastforce
  have soft: "hasTextResult (candidate (d i)) = Inr False
           \<or> (hasTextResult (candidate (d i)) = Inr True
               \<and> finishReason (candidate (d i)) \<noteq> JStr ''STOP''
               \<and> finishReason (candidate (d i)) \<noteq> JStr ''MAX_TOKENS'')"
    using Cons.prems(3) by fastforce
  have printable: "\<not> template_throws (finishReason (candidate (d i)))"
    using Cons.prems(4) by fastforce
  have step: "attempt up messages i model = Continue (EmptyOrBlocked model (?reason i)) []"
    using here soft printable by (auto simp add: attempt_def try_block_def Let_def)
  show ?case
  proof (cases rest)
    case Nil
    then show ?thesis using step by simp
  next
    case (Cons model' rest')
    have r: "rest \<noteq> []" using Cons by simp
    have a: "\<forall>k<length rest. up (Suc i + k) (rest ! k) messages = Resolved (d (Suc i + k))"
    proof (intro allI impI)
      fix k assume "k < length rest"
      then have "Suc k < length (model # rest)" by simp
      then show "up (Suc i + k) (rest ! k) messages = Resolved (d (Suc i + k))"
        using Cons.prems(2) by fastforce
    qed
    have b: "\<forall>k<length rest.
           hasTextResult (candidate (d (Suc i + k))) = Inr False
           \<or> (hasTextResult (candidate (d (Suc i + k))) = Inr True
               \<and> finishReason (candidate (d (Suc i + k))) \<noteq> JStr ''STOP''
               \<and> finishReason (candidate (d (Suc i + k))) \<noteq> JStr ''MAX_TOKENS'')"
    proof (intro allI impI)
      fix k assume "k < length rest"
      then have "Suc k < length (model # rest)" by simp
      then show "hasTextResult (candidate (d (Suc i + k))) = Inr False
           \<or> (hasTextResult (candidate (d (Suc i + k))) = Inr True
               \<and> finishReason (candidate (d (Suc i + k))) \<noteq> JStr ''STOP''
               \<and> finishReason (candidate (d (Suc i + k))) \<noteq> JStr ''MAX_TOKENS'')"
        using Cons.prems(3) by fastforce
    qed
    have c: "\<forall>k<length rest. \<not> template_throws (finishReason (candidate (d (Suc i + k))))"
    proof (intro allI impI)
      fix k assume "k < length rest"
      then have "Suc k < length (model # rest)" by simp
      then show "\<not> template_throws (finishReason (candidate (d (Suc i + k))))"
        using Cons.prems(4) by fastforce
    qed
    have "fetchFromModels_loop up messages (Some (EmptyOrBlocked model (?reason i))) (Suc i) rest =
           (Inl (EmptyOrBlocked (last rest) (?reason (Suc i + length rest - 1))), map Post rest)"
      using Cons.IH [OF r a b c] .
    then show ?thesis using step r by simp
  qed
qed

text \<open>
  C5, as the claim states it, fails: a response without text whose finish reason cannot
  be converted to a string is not accepted, but building the error of line 97 throws, so
  the attempt ends in the \<open>catch\<close>: the delay is applied and the error recorded and
  thrown is that \<open>TypeError\<close>.
\<close>

theorem soft_failure_with_unprintable_reason:
  "hasTextResult (candidate unprintable_reason_response) = Inr False
   \<and> finishReason (candidate unprintable_reason_response) = unprintable
   \<and> unprintable \<noteq> JStr ''STOP'' \<and> unprintable \<noteq> JStr ''MAX_TOKENS''
   \<and> fetchFromModels (\<lambda>i model messages. Resolved unprintable_reason_response)
        hi_conversation [''gemini-pro'']
       = (Inl TypeError, [Post ''gemini-pro'', Delay 500])"
  by (simp add: fetchFromModels_def attempt_def try_block_def catch_block_def statusOf_def
      upstream_message_def unprintable_reason_response_def unprintable_reason_candidate_def
      unprintable_def candidate_def hasTextResult_def finishReason_def js_opt_get_def)

text \<open>
  C5, amended. For a non-empty list of models whose calls all resolve with a response
  that is not accepted (no text segment in the first candidate, or a text segment with
  a finish reason other than \<open>STOP\<close> and \<open>MAX_TOKENS\<close>) and whose finish reason can be
  converted to a string, \<open>fetchFromModels\<close> calls each model once, in the order of the
  list and with no delay in between, and throws the error recorded for the last model:
  it names that model and carries the finish reason of its response, or \<open>Desconocida\<close>
  when the response has none.
\<close>

theorem all_soft_failures_exhaust_the_list:
  assumes "modelList \<noteq> []"
    and "\<forall>k<length modelList. up k (modelList ! k) messages = Resolved (d k)"
    and "\<forall>k<length modelList.
           hasTextResult (candidate (d k)) = Inr False
           \<or> (hasTextResult (candidate (d k)) = Inr True
               \<and> finishReason (candidate (d k)) \<noteq> JStr ''STOP''
               \<and> finishReason (candidate (d k)) \<noteq> JStr ''MAX_TOKENS'')"
    and "\<forall>k<length modelList. \<not> template_throws (finishReason (candidate (d k)))"
  shows "fetchFromModels up messages modelList =
           (Inl (EmptyOrBlocked (last modelList)
                   (if truthy (finishReason (candidate (d (length modelList - 1))))
                    then finishReason (candidate (d (length modelList - 1)))
                    else JStr ''Desconocida'')),
            map Post modelList)"
  using loop_all_soft [of modelList up 0 messages d None] assms
  by (simp add: fetchFromModels_def)

theorem all_soft_failures_exhaust_the_list_witness:
  "fetchFromModels
     (\<lambda>i model messages. Resolved (if i = 0 then empty_response else blocked_response))
     hi_conversation [''gemini-2.5-flash'', ''gemini-pro'']
   = (Inl (EmptyOrBlocked ''gemini-pro'' (JStr ''SAFETY'')),
      [Post ''gemini-2.5-flash'', Post ''gemini-pro''])
   \<and> fetchFromModels
     (\<lambda>i model messages. Resolved (if i = 0 then blocked_response else empty_response))
     hi_conversation [''gemini-2.5-pro'', ''gemini-2.5-flash'']
   = (Inl (EmptyOrBlocked ''gemini-2.5-flash'' (JStr ''STOP'')),
      [Post ''gemini-2.5-pro'', Post ''gemini-2.5-flash''])
   \<and> fetchFromModels (\<lambda>i model messages. Resolved no_candidates_response)
     hi_conversation [''gemini-pro'']
   = (Inl (EmptyOrBlocked ''gemini-pro'' (JStr ''Desconocida'')), [Post ''gemini-pro''])"
proof -
  let ?up1 = "\<lambda>(i::nat) (model::string) (messages::message list).
               Resolved (if i = 0 then empty_response else blocked_response)"
  let ?d1 = "\<lambda>k::nat. if k = 0 then empty_response else blocked_response"
  let ?ms1 = "[''gemini-2.5-flash'', ''gemini-pro'']"
  let ?up2 = "\<lambda>(i::nat) (model::string) (messages::message list).
               Resolved (if i = 0 then blocked_response else empty_response)"
  let ?d2 = "\<lambda>k::nat. if k = 0 then blocked_response else empty_response"
  let ?ms2 = "[''gemini-2.5-pro'', ''gemini-2.5-flash'']"
  let ?up3 = "\<lambda>(i::nat) (model::string) (messages::message list).
               Resolved no_candidates_response"
  let ?d3 = "\<lambda>k::nat. no_candidates_response"
  let ?ms3 = "[''gemini-pro'']"
  have a1: "?ms1 \<noteq> []" by simp
  have b1: "\<forall>k<length ?ms1. ?up1 k (?ms1 ! k) hi_conversation = Resolved (?d1 k)"
    by simp
  have c1: "\<forall>k<length ?ms1.
           hasTextResult (candidate (?d1 k)) = Inr False
           \<or> (hasTextResult (candidate (?d1 k)) = Inr True
               \<and> finishReason (candidate (?d1 k)) \<noteq> JStr ''STOP''
               \<and> finishReason (candidate (?d1 k)) \<noteq> JStr ''MAX_TOKENS'')"
    using empty_response_soft blocked_response_soft by simp
  have p1: "\<forall>k<length ?ms1. \<not> template_throws (finishReason (candidate (?d1 k)))"
    using empty_response_soft blocked_response_soft by simp
  have a2: "?ms2 \<noteq> []" by simp
  have b2: "\<forall>k<length ?ms2. ?up2 k (?ms2 ! k) hi_conversation = Resolved (?d2 k)"
    by simp
  have c2: "\<forall>k<length ?ms2.
           hasTextResult (candidate (?d2 k)) = Inr False
           \<or> (hasTextResult (candidate (?d2 k)) = Inr True
               \<and> finishReason (candidate (?d2 k)) \<noteq> JStr ''STOP''
               \<and> finishReason (candidate (?d2 k)) \<noteq> JStr ''MAX_TOKENS'')"
    using empty_response_soft blocked_response_soft by simp
  have p2: "\<forall>k<length ?ms2. \<not> template_throws (finishReason (candidate (?d2 k)))"
    using empty_response_soft blocked_response_soft by simp
  have a3: "?ms3 \<noteq> []" by simp
  have b3: "\<forall>k<length ?ms3. ?up3 k (?ms3 ! k) hi_conversation = Resolved (?d3 k)"
    by simp
  have c3: "\<forall>k<length ?ms3.
           hasTextResult (candidate (?d3 k)) = Inr False
           \<or> (hasTextResult (candidate (?d3 k)) = Inr True
               \<and> finishReason (candidate (?d3 k)) \<noteq> JStr ''STOP''
               \<and> finishReason (candidate (?d3 k)) \<noteq> JStr ''MAX_TOKENS'')"
    using no_candidates_response_soft by simp
  have p3: "\<forall>k<length ?ms3. \<not> template_throws (finishReason (candidate (?d3 k)))"
    using no_candidates_response_soft by simp
  show ?thesis
    using all_soft_failures_exhaust_the_list [OF a1 b1 c1 p1]
      all_soft_failures_exhaust_the_list [OF a2 b2 c2 p2]
      all_soft_failures_exhaust_the_list [OF a3 b3 c3 p3]
      empty_response_soft blocked_response_soft no_candidates_response_soft
    by simp
qed

text \<open>
  C6, as the claim states it, fails: when the first error has a status other than 400
  and carries an upstream message that cannot be converted to a string, building the log
  line of line 106 throws inside the \<open>catch\<close>; \<open>fetchFromModels\<close> fails after the
  first call, without delay, and the second model is not called.
\<close>

theorem retryable_error_with_unprintable_message:
  "statusOf unprintable_overloaded_error = 503
   \<and> hasTextResult (candidate ok_response) = Inr True
   \<and> finishReason (candidate ok_response) = JStr ''STOP''
   \<and> fetchFromModels
       (\<lambda>i model messages.
          if i = 0 then Rejected unprintable_overloaded_error else Resolved ok_response)
       hi_conversation [''gemini-2.5-flash'', ''gemini-pro'']
     = (Inl TypeError, [Post ''gemini-2.5-flash''])"
  using ok_response_accepted
  by (simp add: fetchFromModels_def attempt_def catch_block_def statusOf_def
      upstream_message_def unprintable_overloaded_error_def unprintable_def js_opt_get_def)

text \<open>
  C6, amended. When the first model's call is rejected with an error whose status is
  not 400 and whose upstream message, if it has one, can be converted to a string, and
  the second model's call resolves with an accepted response, \<open>fetchFromModels\<close> makes
  exactly these two calls, with the 500 ms delay between them, and returns the second
  response body.
\<close>

theorem retryable_error_then_accept:
  assumes "up 0 first messages = Rejected error"
    and "statusOf error \<noteq> 400"
    and "\<not> template_throws (upstream_message error)"
    and "up 1 second messages = Resolved data"
    and "hasTextResult (candidate data) = Inr True"
    and "finishReason (candidate data) = JStr ''STOP''
         \<or> finishReason (candidate data) = JStr ''MAX_TOKENS''"
  shows "fetchFromModels up messages (first # second # rest) =
           (Inr data, [Post first, Delay 500, Post second])"
  using assms
  by (auto simp add: fetchFromModels_def attempt_def catch_block_def try_block_def)

theorem retryable_error_then_accept_witness:
  "statusOf timeout_error = 500
   \<and> upstream_message overloaded_error = JStr ''The model is overloaded.''
   \<and> fetchFromModels
       (\<lambda>i model messages. if i = 0 then Rejected timeout_error else Resolved ok_response)
       hi_conversation [''gemini-2.5-flash'', ''gemini-1.5-flash-latest'', ''gemini-pro'']
     = (Inr ok_response,
        [Post ''gemini-2.5-flash'', Delay 500, Post ''gemini-1.5-flash-latest''])
   \<and> fetchFromModels
       (\<lambda>i model messages. if i = 0 then Rejected overloaded_error else Resolved ok_response)
       hi_conversation [''gemini-2.5-pro'', ''gemini-1.5-pro-latest'']
     = (Inr ok_response,
        [Post ''gemini-2.5-pro'', Delay 500, Post ''gemini-1.5-pro-latest''])"
proof -
  let ?up = "\<lambda>(i::nat) (model::string) (messages::message list).
               if i = 0 then Rejected timeout_error else Resolved ok_response"
  let ?up' = "\<lambda>(i::nat) (model::string) (messages::message list).
               if i = 0 then Rejected overloaded_error else Resolved ok_response"
  have a: "?up 0 ''gemini-2.5-flash'' hi_conversation = Rejected timeout_error"
    by simp
  have a': "?up' 0 ''gemini-2.5-pro'' hi_conversation = Rejected overloaded_error"
    by simp
  have s: "statusOf timeout_error = 500"
    by (simp add: statusOf_def timeout_error_def)
  have s': "statusOf overloaded_error = 503"
    by (simp add: statusOf_def overloaded_error_def)
  have b: "statusOf timeout_error \<noteq> 400"
    using s by simp
  have b': "statusOf overloaded_error \<noteq> 400"
    using s' by simp
  have u: "upstream_message timeout_error = JUndefined"
    by (simp add: upstream_message_def timeout_error_def)
  have u': "upstream_message overloaded_error = JStr ''The model is overloaded.''"
    by (simp add: upstream_message_def overloaded_error_def js_opt_get_def)
  have p: "\<not> template_throws (upstream_message timeout_error)"
    using u by simp
  have p': "\<not> template_throws (upstream_message overloaded_error)"
    using u' by simp
  have c: "?up 1 ''gemini-1.5-flash-latest'' hi_conversation = Resolved ok_response"
    by simp
  have c': "?up' 1 ''gemini-1.5-pro-latest'' hi_conversation = Resolved ok_response"
    by simp
  have d: "hasTextResult (candidate ok_response) = Inr True"
    using ok_response_accepted by simp
  have e: "finishReason (candidate ok_response) = JStr ''STOP''
           \<or> finishReason (candidate ok_response) = JStr ''MAX_TOKENS''"
    using ok_response_accepted by simp
  show ?thesis
    using retryable_error_then_accept [OF a b p c d e, where rest = "[''gemini-pro'']"]
      retryable_error_then_accept [OF a' b' p' c' d e, where rest = "[]"] s u'
    by simp
qed

text \<open>
  What \<open>some_text\<close> and \<open>hasTextResult\<close> decide, in terms of the parts: the result is
  \<open>False\<close> exactly when no part is \<open>null\<close> and none has a truthy text, and \<open>True\<close>
  exactly when some part has a truthy text and no part up to it is \<open>null\<close>.
\<close>

lemma some_text_False_iff:
  "some_text ps = Inr False \<longleftrightarrow> (\<forall>p\<in>set ps. \<not> nullish p \<and> \<not> truthy (js_get p ''text''))"
  by (induction ps) auto

lemma some_text_True_iff:
  "some_text ps = Inr True \<longleftrightarrow>
     (\<exists>k<length ps. truthy (js_get (ps ! k) ''text'') \<and> (\<forall>j\<le>k. \<not> nullish (ps ! j)))"
proof (induction ps)
  case Nil
  then show ?case by simp
next
  case (Cons p ps)
  show ?case
  proof (cases "nullish p")
    case True
    then show ?thesis by auto
  next
    case np: False
    show ?thesis
    proof (cases "truthy (js_get p ''text'')")
      case True
      then show ?thesis using np by auto
    next
      case False
      have "(\<exists>k<length (p # ps). truthy (js_get ((p # ps) ! k) ''text'')
                \<and> (\<forall>j\<le>k. \<not> nullish ((p # ps) ! j)))
            \<longleftrightarrow> (\<exists>k<length ps. truthy (js_get (ps ! k) ''text'')
                \<and> (\<forall>j\<le>k. \<not> nullish (ps ! j)))"
        (is "?L \<longleftrightarrow> ?R")
      proof
        assume ?L
        then obtain k where k: "k < length (p # ps)" "truthy (js_get ((p # ps) ! k) ''text'')"
          "\<forall>j\<le>k. \<not> nullish ((p # ps) ! j)" by blast
        then obtain k' where k': "k = Suc k'" using False by (cases k) auto
        have "\<forall>j\<le>k'. \<not> nullish (ps ! j)"
        proof (intro allI impI)
          fix j assume "j \<le> k'"
          then have "Suc j \<le> k" using k' by simp
          then have "\<not> nullish ((p # ps) ! Suc j)" using k(3) by blast
          then show "\<not> nullish (ps ! j)" by simp
        qed
        then show ?R using k k' by auto
      next
        assume ?R
        then obtain k where k: "k < length ps" "truthy (js_get (ps ! k) ''text'')"
          "\<forall>j\<le>k. \<not> nullish (ps ! j)" by blast
        have "\<forall>j\<le>Suc k. \<not> nullish ((p # ps) ! j)"
        proof (intro allI impI)
          fix j assume "j \<le> Suc k"
          then show "\<not> nullish ((p # ps) ! j)" using k(3) np by (cases j) auto
        qed
        then show ?L using k by (intro exI [of _ "Suc k"]) simp
      qed
      then show ?thesis using Cons.IH False np by simp
    qed
  qed
qed

lemma hasTextResult_parts:
  "js_opt_get (js_opt_get c ''content'') ''parts'' = JArr ps \<Longrightarrow> hasTextResult c = some_text ps"
  by (simp add: hasTextResult_def)

lemma hasTextResult_False_iff:
  "hasTextResult c = Inr False \<longleftrightarrow>
     nullish (js_opt_get (js_opt_get c ''content'') ''parts'')
     \<or> (\<exists>ps. js_opt_get (js_opt_get c ''content'') ''parts'' = JArr ps
              \<and> (\<forall>p\<in>set ps. \<not> nullish p \<and> \<not> truthy (js_get p ''text'')))"
  by (cases "js_opt_get (js_opt_get c ''content'') ''parts''")
    (simp_all add: hasTextResult_def some_text_False_iff)

text \<open>
  C10, as the claim states it, fails: a response whose first candidate has \<open>null\<close> as
  its only part, and whose second candidate has a text and finished with \<open>STOP\<close>, is
  not recorded as a response that is not accepted. The check of line 89 throws on the
  first candidate, so the attempt ends in the \<open>catch\<close>, with the delay and with the
  \<open>TypeError\<close> as the error recorded.
\<close>

theorem first_candidate_with_null_part:
  "js_opt_get null_part_response ''candidates'' = JArr [null_part_candidate, ok_candidate]
   \<and> js_opt_get (js_opt_get null_part_candidate ''content'') ''parts'' = JArr [JNull]
   \<and> hasTextResult ok_candidate = Inr True
   \<and> finishReason ok_candidate = JStr ''STOP''
   \<and> attempt (\<lambda>i model messages. Resolved null_part_response) hi_conversation 0 ''gemini-pro''
       = Continue TypeError [Delay 500]
   \<and> fetchFromModels (\<lambda>i model messages. Resolved null_part_response) hi_conversation
        [''gemini-pro'']
       = (Inl TypeError, [Post ''gemini-pro'', Delay 500])"
  by (simp add: fetchFromModels_def attempt_def try_block_def catch_block_def statusOf_def
      upstream_message_def null_part_response_def null_part_candidate_def ok_candidate_def
      candidate_def hasTextResult_def finishReason_def js_opt_get_def)

text \<open>
  C10, amended. The acceptance check reads the first entry of \<open>candidates\<close> only. A
  response whose \<open>candidates\<close> array is empty, or whose first candidate has no parts or
  has an array of parts none of which is \<open>null\<close> or has a non-empty text, and has a
  finish reason that can be converted to a string, is recorded as not accepted, with the
  first candidate's finish reason (\<open>Desconocida\<close> when it has none), and the loop goes
  on without delay, whatever the later candidates hold; the example is a response whose
  second candidate has a text and finished with \<open>STOP\<close>.
\<close>

theorem only_the_first_candidate_is_inspected:
  assumes "up 0 model messages = Resolved data"
    and "js_opt_get data ''candidates'' = JArr cands"
    and "cands = []
         \<or> ((nullish (js_opt_get (js_opt_get (hd cands) ''content'') ''parts'')
              \<or> (\<exists>ps. js_opt_get (js_opt_get (hd cands) ''content'') ''parts'' = JArr ps
                       \<and> (\<forall>p\<in>set ps. \<not> nullish p \<and> \<not> truthy (js_get p ''text''))))
             \<and> \<not> template_throws (finishReason (hd cands)))"
  shows "candidate data = (case cands of [] \<Rightarrow> JUndefined | c # cs \<Rightarrow> c)
     \<and> attempt up messages 0 model =
         Continue (EmptyOrBlocked model
                     (if truthy (finishReason (candidate data))
                      then finishReason (candidate data) else JStr ''Desconocida'')) []
     \<and> fetchFromModels up messages [model] =
         (Inl (EmptyOrBlocked model
                 (if truthy (finishReason (candidate data))
                  then finishReason (candidate data) else JStr ''Desconocida'')),
          [Post model])"
proof -
  have c: "candidate data = (case cands of [] \<Rightarrow> JUndefined | c # cs \<Rightarrow> c)"
    using assms(2) by (cases cands) (simp_all add: candidate_def)
  have h: "hasTextResult (candidate data) = Inr False
           \<and> \<not> template_throws (finishReason (candidate data))"
  proof (cases cands)
    case Nil
    then show ?thesis
      using c by (simp add: hasTextResult_def finishReason_def js_opt_get_def)
  next
    case (Cons c' cs)
    then have "candidate data = hd cands" using c by simp
    moreover have "hasTextResult (hd cands) = Inr False"
      using assms(3) Cons hasTextResult_False_iff [of "hd cands"] by blast
    moreover have "\<not> template_throws (finishReason (hd cands))"
      using assms(3) Cons by blast
    ultimately show ?thesis by simp
  qed
  have a: "attempt up messages 0 model =
         Continue (EmptyOrBlocked model
                     (if truthy (finishReason (candidate data))
                      then finishReason (candidate data) else JStr ''Desconocida'')) []"
    using assms(1) h by (simp add: attempt_def try_block_def Let_def)
  show ?thesis using c a by (simp add: fetchFromModels_def)
qed

theorem only_the_first_candidate_is_inspected_witness:
  "js_opt_get second_candidate_response ''candidates'' = JArr [refused_candidate, ok_candidate]
   \<and> nullish (js_opt_get (js_opt_get refused_candidate ''content'') ''parts'')
   \<and> hasTextResult ok_candidate = Inr True
   \<and> finishReason ok_candidate = JStr ''STOP''
   \<and> candidate second_candidate_response = refused_candidate
   \<and> fetchFromModels (\<lambda>i model messages. Resolved second_candidate_response) hi_conversation
        [''gemini-pro'']
       = (Inl (EmptyOrBlocked ''gemini-pro'' (JStr ''SAFETY'')), [Post ''gemini-pro''])
   \<and> js_opt_get no_candidates_response ''candidates'' = JArr []
   \<and> fetchFromModels (\<lambda>i model messages. Resolved no_candidates_response) hi_conversation
        [''gemini-pro'']
       = (Inl (EmptyOrBlocked ''gemini-pro'' (JStr ''Desconocida'')), [Post ''gemini-pro''])"
proof -
  have a: "(\<lambda>i model messages. Resolved second_candidate_response) 0 ''gemini-pro''
             hi_conversation = Resolved second_candidate_response"
    by simp
  have b: "js_opt_get second_candidate_response ''candidates''
             = JArr [refused_candidate, ok_candidate]"
    by (simp add: second_candidate_response_def js_opt_get_def)
  have n: "nullish (js_opt_get (js_opt_get refused_candidate ''content'') ''parts'')"
    by (simp add: refused_candidate_def js_opt_get_def)
  have f: "finishReason refused_candidate = JStr ''SAFETY''"
    by (simp add: refused_candidate_def finishReason_def js_opt_get_def)
  have c: "[refused_candidate, ok_candidate] = []
         \<or> ((nullish (js_opt_get (js_opt_get (hd [refused_candidate, ok_candidate])
                        ''content'') ''parts'')
              \<or> (\<exists>ps. js_opt_get (js_opt_get (hd [refused_candidate, ok_candidate])
                          ''content'') ''parts'' = JArr ps
                       \<and> (\<forall>p\<in>set ps. \<not> nullish p \<and> \<not> truthy (js_get p ''text''))))
             \<and> \<not> template_throws (finishReason (hd [refused_candidate, ok_candidate])))"
    using n f by simp
  have l: "hasTextResult ok_candidate = Inr True \<and> finishReason ok_candidate = JStr ''STOP''"
    by (simp add: ok_candidate_def hasTextResult_def finishReason_def js_opt_get_def)
  have a': "(\<lambda>i model messages. Resolved no_candidates_response) 0 ''gemini-pro''
             hi_conversation = Resolved no_candidates_response"
    by simp
  have b': "js_opt_get no_candidates_response ''candidates'' = JArr []"
    by (simp add: no_candidates_response_def js_opt_get_def)
  have c': "[] = []
         \<or> ((nullish (js_opt_get (js_opt_get (hd []) ''content'') ''parts'')
              \<or> (\<exists>ps. js_opt_get (js_opt_get (hd []) ''content'') ''parts'' = JArr ps
                       \<and> (\<forall>p\<in>set ps. \<not> nullish p \<and> \<not> truthy (js_get p ''text''))))
             \<and> \<not> template_throws (finishReason (hd [])))"
    by simp
  show ?thesis
    using only_the_first_candidate_is_inspected [OF a b c]
      only_the_first_candidate_is_inspected [OF a' b' c']
      b n l f b' no_candidates_response_soft
    by simp
qed

section \<open>Theorems about the handler\<close>

lemma hi_conversation_size:
  "totalChars_of hi_conversation = Inr 2"
  by (simp add: totalChars_of_def hi_conversation_def)

text \<open>
  Where every message has exactly one part, line 140 computes the specification's
  metric.
\<close>

lemma reduce_chars_single_part:
  assumes "\<forall>msg\<in>set messages. \<exists>p. msg_parts msg = Some [p]"
  shows "reduce_chars acc messages = Inr (acc + spec_conversation_size messages)"
  using assms
proof (induction messages arbitrary: acc)
  case Nil
  then show ?case by (simp add: spec_conversation_size_def)
next
  case (Cons msg rest)
  then obtain p where p: "msg_parts msg = Some [p]" by auto
  have rest: "\<forall>m\<in>set rest. \<exists>p. msg_parts m = Some [p]" using Cons.prems by simp
  have "spec_conversation_size (msg # rest) =
          (case part_text p of None \<Rightarrow> 0 | Some t \<Rightarrow> int (length t)) + spec_conversation_size rest"
    using p by (simp add: spec_conversation_size_def)
  then show ?case using p Cons.IH [OF rest] by (simp split: option.splits)
qed

lemma totalChars_of_single_part:
  "\<forall>msg\<in>set messages. \<exists>p. msg_parts msg = Some [p] \<Longrightarrow>
     totalChars_of messages = Inr (spec_conversation_size messages)"
  using reduce_chars_single_part [of messages 0] by (simp add: totalChars_of_def)

text \<open>
  C7. The size handed to \<open>getDynamicModelList\<close> counts the first part of each message
  only. For one message with the two text parts \<open>ab\<close> and \<open>cde\<close> the code computes 2,
  where the sum of the lengths of all text segments is 5.
\<close>

theorem totalChars_counts_the_first_part_only:
  "totalChars_of
     [\<lparr>msg_parts = Some [\<lparr>part_text = Some [0x61, 0x62]\<rparr>,
                         \<lparr>part_text = Some [0x63, 0x64, 0x65]\<rparr>]\<rparr>] = Inr 2
   \<and> spec_conversation_size
     [\<lparr>msg_parts = Some [\<lparr>part_text = Some [0x61, 0x62]\<rparr>,
                         \<lparr>part_text = Some [0x63, 0x64, 0x65]\<rparr>]\<rparr>] = 5"
  by (simp add: totalChars_of_def spec_conversation_size_def)

text \<open>
  The difference reaches the ordering: with a one-character first part and a second part
  of 4000 characters the code orders for a short conversation, the specification's
  metric for a long one.
\<close>

lemma first_part_only_changes_the_ordering:
  "totalChars_of
     [\<lparr>msg_parts = Some [\<lparr>part_text = Some [0x61]\<rparr>,
                         \<lparr>part_text = Some (replicate 4000 0x62)\<rparr>]\<rparr>] = Inr 1
   \<and> spec_conversation_size
     [\<lparr>msg_parts = Some [\<lparr>part_text = Some [0x61]\<rparr>,
                         \<lparr>part_text = Some (replicate 4000 0x62)\<rparr>]\<rparr>] = 4001
   \<and> hd (getDynamicModelList 1) = ''gemini-2.5-flash''
   \<and> hd (getDynamicModelList 4001) = ''gemini-2.5-pro''"
  by (simp add: totalChars_of_def spec_conversation_size_def getDynamicModelList_long
      getDynamicModelList_short)

text \<open>
  C8, as the claim states it, fails: a message whose only part has no text passes the
  check of line 129, the upstream service is called and its response is returned with
  status 200.
\<close>

theorem message_without_text_reaches_upstream:
  "handler (\<lambda>i model messages. Resolved ok_response) (Some ''key'')
     \<lparr>req_method = ''POST'',
      req_body = Some (FArr [\<lparr>msg_parts = Some [\<lparr>part_text = None\<rparr>]\<rparr>])\<rparr>
   = (Responded \<lparr>status_code = 200, json = ok_response\<rparr>, [Post ''gemini-2.5-flash''])"
proof -
  let ?ms = "[\<lparr>msg_parts = Some [\<lparr>part_text = None\<rparr>]\<rparr>]"
  let ?up = "\<lambda>(i::nat) (model::string) (messages::message list). Resolved ok_response"
  have n: "totalChars_of ?ms = Inr 0"
    by (simp add: totalChars_of_def)
  have l: "getDynamicModelList 0 =
     [''gemini-2.5-flash'', ''gemini-1.5-flash-latest'', ''gemini-2.5-pro'',
      ''gemini-1.5-pro-latest'', ''gemini-pro'']"
    by (simp add: getDynamicModelList_short)
  have a: "attempt ?up ?ms 0 ''gemini-2.5-flash'' = Return ok_response"
    using ok_response_accepted by (simp add: attempt_def try_block_def)
  have f: "fetchFromModels ?up ?ms (getDynamicModelList 0)
             = (Inr ok_response, [Post ''gemini-2.5-flash''])"
    unfolding l fetchFromModels_def using a by simp
  show ?thesis
    using n f by (simp add: handler_def)
qed

text \<open>
  A message with an empty \<open>parts\<close> array is not rejected as invalid either: the read
  on line 140 throws and the handler answers with status 500.
\<close>

lemma message_without_parts_gives_500:
  "handler up (Some ''key'')
     \<lparr>req_method = ''POST'', req_body = Some (FArr [\<lparr>msg_parts = Some []\<rparr>])\<rparr>
   = (Responded \<lparr>status_code = 500, json = JObj [(''error'', JStr MSG_GENERIC)]\<rparr>, [])"
  by (simp add: handler_def totalChars_of_def error_reply_def error_json_def errorMessage_def Let_def
      statusOf_def upstream_message_def)

text \<open>
  C8, amended. For every POST request with a body whose \<open>messages\<close> member is anything
  but a non-empty array (absent, \<open>null\<close>, a boolean, a number, a string, an object or the
  empty array), the handler answers with status 400 and the validation message, and no
  upstream call is made, whatever the upstream service and the API key are.
\<close>

theorem invalid_messages_field_is_rejected:
  assumes "req_method req = ''POST''"
    and "req_body req = Some messages"
    and "\<forall>m ms. messages \<noteq> FArr (m # ms)"
  shows "handler up apiKey req =
     (Responded \<lparr>status_code = 400, json = JObj [(''error'', JStr MSG_MESSAGES)]\<rparr>, [])"
proof -
  have "\<not> truthy_field messages \<or> \<not> isArray messages \<or> elements messages = []"
  proof (cases messages)
    case (FArr xs)
    then show ?thesis using assms(3) by (cases xs) auto
  qed auto
  then show ?thesis using assms(1,2) by (simp add: handler_def error_json_def)
qed

theorem invalid_messages_field_is_rejected_witness:
  "handler (\<lambda>i model messages. Resolved ok_response) (Some ''key'')
     \<lparr>req_method = ''POST'', req_body = Some FUndefined\<rparr>
     = (Responded \<lparr>status_code = 400, json = JObj [(''error'', JStr MSG_MESSAGES)]\<rparr>, [])
   \<and> handler (\<lambda>i model messages. Resolved ok_response) (Some ''key'')
     \<lparr>req_method = ''POST'', req_body = Some (FStr ''hello'')\<rparr>
     = (Responded \<lparr>status_code = 400, json = JObj [(''error'', JStr MSG_MESSAGES)]\<rparr>, [])
   \<and> handler (\<lambda>i model messages. Resolved ok_response) (Some ''key'')
     \<lparr>req_method = ''POST'', req_body = Some (FArr [])\<rparr>
     = (Responded \<lparr>status_code = 400, json = JObj [(''error'', JStr MSG_MESSAGES)]\<rparr>, [])"
proof -
  have m: "req_method \<lparr>req_method = ''POST'', req_body = b\<rparr> = ''POST''" for b
    by simp
  have b: "req_body \<lparr>req_method = ''POST'', req_body = Some f\<rparr> = Some f" for f
    by simp
  have u: "\<forall>m ms. FUndefined \<noteq> FArr (m # ms)" by simp
  have s: "\<forall>m ms. FStr ''hello'' \<noteq> FArr (m # ms)" by simp
  have e: "\<forall>m ms. FArr [] \<noteq> FArr (m # ms)" by simp
  show ?thesis
    using invalid_messages_field_is_rejected [OF m b u]
      invalid_messages_field_is_rejected [OF m b s]
      invalid_messages_field_is_rejected [OF m b e]
    by simp
qed

text \<open>
  A POST request without a body is not answered by the handler at all: the
  destructuring on line 128 throws before the \<open>try\<close>.
\<close>

lemma request_without_body_throws:
  "handler up apiKey \<lparr>req_method = ''POST'', req_body = None\<rparr> = (Unhandled TypeError, [])"
  by (simp add: handler_def)

text \<open>The four texts the \<open>catch\<close> of the handler chooses from differ from each other.\<close>

lemma failure_texts_distinct:
  "distinct [MSG_QUOTA, MSG_INVALID, MSG_TIMEOUT, MSG_GENERIC]"
  by (simp add: MSG_QUOTA_def MSG_INVALID_def MSG_TIMEOUT_def MSG_GENERIC_def)

text \<open>
  What the executor does when every call is rejected with the same error, of a status
  other than 400 and with an upstream message that can be converted to a string: five
  calls, each followed by the delay, and that error thrown.
\<close>

lemma always_rejected:
  assumes "statusOf error \<noteq> 400"
    and "\<not> template_throws (upstream_message error)"
  shows "fetchFromModels (\<lambda>i model messages. Rejected error) messages [m1, m2, m3, m4, m5]
     = (Inl error, [Post m1, Delay 500, Post m2, Delay 500, Post m3, Delay 500,
                    Post m4, Delay 500, Post m5, Delay 500])"
  using assms by (simp add: fetchFromModels_def attempt_def catch_block_def)

text \<open>
  C9, as the claim states it, fails: when the last error has status 503 and the upstream
  body carries an error message of its own, the handler answers with that message, not
  with the generic text.
\<close>

theorem upstream_message_is_passed_on:
  "handler (\<lambda>i model messages. Rejected overloaded_error) (Some ''key'')
     \<lparr>req_method = ''POST'', req_body = Some (FArr hi_conversation)\<rparr>
   = (Responded \<lparr>status_code = 503,
                 json = JObj [(''error'', JStr ''The model is overloaded.'')]\<rparr>,
      [Post ''gemini-2.5-flash'', Delay 500, Post ''gemini-1.5-flash-latest'', Delay 500,
       Post ''gemini-2.5-pro'', Delay 500, Post ''gemini-1.5-pro-latest'', Delay 500,
       Post ''gemini-pro'', Delay 500])
   \<and> ''The model is overloaded.'' \<noteq> MSG_GENERIC"
proof -
  have s: "statusOf overloaded_error = 503"
    by (simp add: statusOf_def overloaded_error_def)
  have c: "code_of overloaded_error = Some ''ERR_BAD_RESPONSE''"
    by (simp add: overloaded_error_def)
  have u: "upstream_message overloaded_error = JStr ''The model is overloaded.''"
    by (simp add: upstream_message_def overloaded_error_def js_opt_get_def)
  have r: "error_reply overloaded_error
      = \<lparr>status_code = 503, json = JObj [(''error'', JStr ''The model is overloaded.'')]\<rparr>"
    by (simp add: error_reply_def errorMessage_def Let_def error_json_def s c u)
  have l: "getDynamicModelList 2 =
     [''gemini-2.5-flash'', ''gemini-1.5-flash-latest'', ''gemini-2.5-pro'',
      ''gemini-1.5-pro-latest'', ''gemini-pro'']"
    by (simp add: getDynamicModelList_short)
  have ne: "hi_conversation \<noteq> []"
    by (simp add: hi_conversation_def)
  have f: "fetchFromModels (\<lambda>i model messages. Rejected overloaded_error) hi_conversation
             (getDynamicModelList 2)
     = (Inl overloaded_error,
        [Post ''gemini-2.5-flash'', Delay 500, Post ''gemini-1.5-flash-latest'', Delay 500,
         Post ''gemini-2.5-pro'', Delay 500, Post ''gemini-1.5-pro-latest'', Delay 500,
         Post ''gemini-pro'', Delay 500])"
    unfolding l using always_rejected [of overloaded_error] s u by simp
  have h: "handler (\<lambda>i model messages. Rejected overloaded_error) (Some ''key'')
     \<lparr>req_method = ''POST'', req_body = Some (FArr hi_conversation)\<rparr>
     = (Responded (error_reply overloaded_error),
        [Post ''gemini-2.5-flash'', Delay 500, Post ''gemini-1.5-flash-latest'', Delay 500,
         Post ''gemini-2.5-pro'', Delay 500, Post ''gemini-1.5-pro-latest'', Delay 500,
         Post ''gemini-pro'', Delay 500])"
    using ne hi_conversation_size f by (simp add: handler_def)
  show ?thesis
    using h r by (simp add: MSG_GENERIC_def)
qed

text \<open>
  C9, amended. When the size computation or the executor throws, the handler answers
  with the status of the error thrown (its upstream status, 500 when it has none or the
  status is 0) and with a text chosen in this order: the quota text when that status is
  429; the bad-request text when it is 400; the timeout text when the error code is
  \<open>ECONNABORTED\<close>; the upstream's own error message when the error carries a truthy
  one; the generic text otherwise.
\<close>

theorem failure_reply_by_last_error:
  assumes "req_method req = ''POST''"
    and "req_body req = Some (FArr (m # ms))"
    and "apiKey = Some key"
    and "key \<noteq> []"
    and "(totalChars_of (m # ms) = Inl error \<and> trace = [])
         \<or> (\<exists>n. totalChars_of (m # ms) = Inr n
                 \<and> fetchFromModels up (m # ms) (getDynamicModelList n) = (Inl error, trace))"
  shows "handler up apiKey req =
           (Responded \<lparr>status_code = statusOf error,
                        json = JObj [(''error'', errorMessage error)]\<rparr>, trace)
     \<and> statusOf error = (case response_of error of
                           None \<Rightarrow> 500
                         | Some r \<Rightarrow> if resp_status r = 0 then 500 else resp_status r)
     \<and> (statusOf error = 429 \<longrightarrow> errorMessage error = JStr MSG_QUOTA)
     \<and> (statusOf error = 400 \<longrightarrow> errorMessage error = JStr MSG_INVALID)
     \<and> (statusOf error \<noteq> 429 \<and> statusOf error \<noteq> 400
          \<and> code_of error = Some ''ECONNABORTED''
          \<longrightarrow> errorMessage error = JStr MSG_TIMEOUT)
     \<and> (statusOf error \<noteq> 429 \<and> statusOf error \<noteq> 400
          \<and> code_of error \<noteq> Some ''ECONNABORTED'' \<and> truthy (upstream_message error)
          \<longrightarrow> errorMessage error = upstream_message error)
     \<and> (statusOf error \<noteq> 429 \<and> statusOf error \<noteq> 400
          \<and> code_of error \<noteq> Some ''ECONNABORTED'' \<and> \<not> truthy (upstream_message error)
          \<longrightarrow> errorMessage error = JStr MSG_GENERIC)"
proof -
  have h: "handler up apiKey req = (Responded (error_reply error), trace)"
    using assms by (auto simp add: handler_def)
  have r: "error_reply error =
             \<lparr>status_code = statusOf error, json = JObj [(''error'', errorMessage error)]\<rparr>"
    by (simp add: error_reply_def error_json_def)
  have s: "statusOf error = (case response_of error of
                           None \<Rightarrow> 500
                         | Some r \<Rightarrow> if resp_status r = 0 then 500 else resp_status r)"
    by (simp add: statusOf_def)
  show ?thesis
    using h r s by (simp add: errorMessage_def Let_def)
qed

theorem failure_reply_by_last_error_witness:
  "handler (\<lambda>i model messages. Rejected quota_error) (Some ''key'')
     \<lparr>req_method = ''POST'', req_body = Some (FArr hi_conversation)\<rparr>
   = (Responded \<lparr>status_code = 429, json = JObj [(''error'', JStr MSG_QUOTA)]\<rparr>,
      [Post ''gemini-2.5-flash'', Delay 500, Post ''gemini-1.5-flash-latest'', Delay 500,
       Post ''gemini-2.5-pro'', Delay 500, Post ''gemini-1.5-pro-latest'', Delay 500,
       Post ''gemini-pro'', Delay 500])
   \<and> handler (\<lambda>i model messages. Rejected timeout_error) (Some ''key'')
     \<lparr>req_method = ''POST'', req_body = Some (FArr hi_conversation)\<rparr>
   = (Responded \<lparr>status_code = 500, json = JObj [(''error'', JStr MSG_TIMEOUT)]\<rparr>,
      [Post ''gemini-2.5-flash'', Delay 500, Post ''gemini-1.5-flash-latest'', Delay 500,
       Post ''gemini-2.5-pro'', Delay 500, Post ''gemini-1.5-pro-latest'', Delay 500,
       Post ''gemini-pro'', Delay 500])"
proof -
  let ?trace = "[Post ''gemini-2.5-flash'', Delay 500, Post ''gemini-1.5-flash-latest'',
       Delay 500, Post ''gemini-2.5-pro'', Delay 500, Post ''gemini-1.5-pro-latest'', Delay 500,
       Post ''gemini-pro'', Delay 500]"
  let ?msg = "\<lparr>msg_parts = Some [\<lparr>part_text = Some [0x68, 0x69]\<rparr>]\<rparr>"
  have m: "req_method \<lparr>req_method = ''POST'', req_body = Some (FArr hi_conversation)\<rparr>
             = ''POST''"
    by simp
  have b: "req_body \<lparr>req_method = ''POST'', req_body = Some (FArr hi_conversation)\<rparr>
             = Some (FArr (?msg # []))"
    by (simp add: hi_conversation_def)
  have k: "Some ''key'' = Some ''key''" by simp
  have k': "''key'' \<noteq> []" by simp
  have l: "getDynamicModelList 2 =
     [''gemini-2.5-flash'', ''gemini-1.5-flash-latest'', ''gemini-2.5-pro'',
      ''gemini-1.5-pro-latest'', ''gemini-pro'']"
    by (simp add: getDynamicModelList_short)
  have n: "totalChars_of (?msg # []) = Inr 2"
    using hi_conversation_size by (simp add: hi_conversation_def)
  have sq: "statusOf quota_error = 429"
    by (simp add: statusOf_def quota_error_def)
  have st: "statusOf timeout_error = 500"
    by (simp add: statusOf_def timeout_error_def)
  have ct: "code_of timeout_error = Some ''ECONNABORTED''"
    by (simp add: timeout_error_def)
  have uq: "upstream_message quota_error = JUndefined"
    by (simp add: upstream_message_def quota_error_def js_opt_get_def)
  have ut: "upstream_message timeout_error = JUndefined"
    by (simp add: upstream_message_def timeout_error_def)
  have fq: "fetchFromModels (\<lambda>i model messages. Rejected quota_error) (?msg # [])
              (getDynamicModelList 2) = (Inl quota_error, ?trace)"
    unfolding l using always_rejected [of quota_error] sq uq by simp
  have ft: "fetchFromModels (\<lambda>i model messages. Rejected timeout_error) (?msg # [])
              (getDynamicModelList 2) = (Inl timeout_error, ?trace)"
    unfolding l using always_rejected [of timeout_error] st ut by simp
  have pq: "(totalChars_of (?msg # []) = Inl quota_error \<and> ?trace = [])
         \<or> (\<exists>n. totalChars_of (?msg # []) = Inr n
                 \<and> fetchFromModels (\<lambda>i model messages. Rejected quota_error) (?msg # [])
                      (getDynamicModelList n) = (Inl quota_error, ?trace))"
    using n fq by blast
  have pt: "(totalChars_of (?msg # []) = Inl timeout_error \<and> ?trace = [])
         \<or> (\<exists>n. totalChars_of (?msg # []) = Inr n
                 \<and> fetchFromModels (\<lambda>i model messages. Rejected timeout_error) (?msg # [])
                      (getDynamicModelList n) = (Inl timeout_error, ?trace))"
    using n ft by blast
  show ?thesis
    using failure_reply_by_last_error [OF m b k k' pq]
          failure_reply_by_last_error [OF m b k k' pt] sq st ct
    by simp
qed

end
